theory Spec2Isabelle
  imports Complex_Main "HOL-Library.Sublist" "HOL-Library.Log_Nat"
begin

section \<open>JSON values and what the program takes from its platform\<close>

text \<open>
  The worker is TypeScript for the Cloudflare Workers runtime. Every value that crosses
  the wire is JSON, so the values of the model are JSON values; JavaScript's
  \<^verbatim>\<open>undefined\<close> is \<open>None\<close> of \<open>json option\<close>. A number of a JSON value carries the
  value of the double it is; the arithmetic of the source on numbers is the arithmetic
  of IEEE doubles, defined below. An object is the list of its own properties; a
  property is read with \<open>map_of\<close>.
\<close>

datatype json =
    JNull
  | JBool bool
  | JNum real
  | JStr string
  | JArr "json list"
  | JObj "(string \<times> json) list"

text \<open>
  An issue of a failed zod validation (the library reports \<^verbatim>\<open>invalid_type\<close> with the
  expected and the received type and the path of the value), and the values the program
  can throw: \<^verbatim>\<open>new Error(m)\<close> of the source, a \<^verbatim>\<open>TypeError\<close> of a property read on
  \<^verbatim>\<open>null\<close> or \<^verbatim>\<open>undefined\<close>, a \<^verbatim>\<open>SyntaxError\<close> of \<^verbatim>\<open>JSON.parse\<close>, a \<^verbatim>\<open>ZodError\<close>.
\<close>

datatype zod_issue = invalid_type (expected: string) (received: string) (path: "string list")

datatype fault =
    Error string
  | TypeError
  | SyntaxError
  | ZodError "zod_issue list"

text \<open>
  The built-ins of the platform the source calls, as one record, so that every theorem
  holds for each behaviour they can have: the clock read by \<^verbatim>\<open>new Date().toISOString()\<close>,
  the draw of \<^verbatim>\<open>Math.random()\<close>, the conversion of a number in a template literal,
  \<^verbatim>\<open>JSON.parse\<close>, \<^verbatim>\<open>JSON.stringify\<close> with its indentation argument (0 when the source
  gives none), and the \<^verbatim>\<open>message\<close> property of the errors the platform and zod create.
\<close>

record runtime =
  Date_toISOString :: string
  Math_random :: real
  Number_toString :: "real \<Rightarrow> string"
  JSON_parse :: "string \<Rightarrow> fault + json"
  JSON_stringify :: "json \<Rightarrow> nat \<Rightarrow> string"
  thrown_message :: "fault \<Rightarrow> string"

text \<open>\<^verbatim>\<open>(error as Error).message\<close>\<close>

definition message_of :: "runtime \<Rightarrow> fault \<Rightarrow> string" where
  "message_of rt e = (case e of Error m \<Rightarrow> m | _ \<Rightarrow> thrown_message rt e)"

text \<open>
  Reading property \<open>k\<close> of a value: a \<^verbatim>\<open>TypeError\<close> on \<^verbatim>\<open>null\<close> and \<^verbatim>\<open>undefined\<close>,
  the own property of an object, \<^verbatim>\<open>undefined\<close> on every other JSON value (none of the
  names the source reads is a property of a string, a number, a boolean or an array).
\<close>

fun getprop :: "json \<Rightarrow> string \<Rightarrow> json option" where
  "getprop (JObj kvs) k = map_of kvs k"
| "getprop _ k = None"

fun member :: "json option \<Rightarrow> string \<Rightarrow> fault + json option" where
  "member None k = Inl TypeError"
| "member (Some JNull) k = Inl TypeError"
| "member (Some v) k = Inr (getprop v k)"

text \<open>Truthiness, as \<^verbatim>\<open>if (v)\<close> and \<^verbatim>\<open>v || w\<close> test it.\<close>

fun truthy :: "json option \<Rightarrow> bool" where
  "truthy None = False"
| "truthy (Some JNull) = False"
| "truthy (Some (JBool b)) = b"
| "truthy (Some (JNum n)) = (n \<noteq> 0)"
| "truthy (Some (JStr s)) = (s \<noteq> [])"
| "truthy (Some (JArr xs)) = True"
| "truthy (Some (JObj kvs)) = True"

text \<open>\<^verbatim>\<open>xs.join(sep)\<close> on strings.\<close>

fun join :: "string \<Rightarrow> string list \<Rightarrow> string" where
  "join sep [] = []"
| "join sep [x] = x"
| "join sep (x # y # ys) = x @ sep @ join sep (y # ys)"

text \<open>
  The string a template literal \<^verbatim>\<open>`${v}`\<close> puts for a value: an array joins its
  elements with commas, \<^verbatim>\<open>null\<close> elements giving the empty string.
\<close>

fun ToString :: "runtime \<Rightarrow> json \<Rightarrow> string" where
  "ToString rt JNull = ''null''"
| "ToString rt (JBool b) = (if b then ''true'' else ''false'')"
| "ToString rt (JNum n) = Number_toString rt n"
| "ToString rt (JStr s) = s"
| "ToString rt (JArr xs) = join '','' (map (\<lambda>x. if x = JNull then [] else ToString rt x) xs)"
| "ToString rt (JObj kvs) = ''[object Object]''"

definition template :: "runtime \<Rightarrow> json option \<Rightarrow> string" where
  "template rt v = (case v of None \<Rightarrow> ''undefined'' | Some j \<Rightarrow> ToString rt j)"

section \<open>Numbers: the arithmetic of IEEE doubles\<close>

text \<open>
  A JavaScript number is an IEEE 754 binary64 value: a real number with a significand of
  53 bits and an exponent from -1022 to 1023, or an infinity, or NaN. An operation gives
  the exact result rounded to the nearest such value, ties to the even significand, and
  an infinity when the rounded result is beyond the largest. The sign of a zero is not
  kept: nothing the source does with a number tells the two zeros apart.

  The exponent of the binade of a non-zero \<open>x\<close> (\<open>2 ^ e \<le> \<bar>x\<bar> < 2 ^ (e + 1)\<close>), not below
  that of the smallest normal number, and the spacing of the doubles there; \<open>bitlen n\<close>
  is the number of binary digits of \<open>n\<close>:
\<close>

definition expo :: "real \<Rightarrow> int" where
  "expo x =
     max (- 1022)
       (if 1 \<le> \<bar>x\<bar> then bitlen \<lfloor>\<bar>x\<bar>\<rfloor> - 1 else - bitlen (\<lceil>1 / \<bar>x\<bar>\<rceil> - 1))"

definition ulp :: "real \<Rightarrow> real" where
  "ulp x = (if 52 \<le> expo x then 2 ^ nat (expo x - 52) else 1 / 2 ^ nat (52 - expo x))"

text \<open>The nearest integer, a tie going to the even one.\<close>

definition round_even :: "real \<Rightarrow> int" where
  "round_even q =
     (if q - of_int \<lfloor>q\<rfloor> < 1 / 2 then \<lfloor>q\<rfloor>
      else if 1 / 2 < q - of_int \<lfloor>q\<rfloor> then \<lfloor>q\<rfloor> + 1
      else if even \<lfloor>q\<rfloor> then \<lfloor>q\<rfloor> else \<lfloor>q\<rfloor> + 1)"

text \<open>The nearest value with a 53-bit significand; a double is a fixed point of it.\<close>

definition round64 :: "real \<Rightarrow> real" where
  "round64 x = (if x = 0 then 0 else of_int (round_even (x / ulp x)) * ulp x)"

datatype double = Num real | Infinity | MinusInfinity | NaN

definition to_double :: "real \<Rightarrow> double" where
  "to_double x =
     (if 2 ^ 1024 \<le> round64 x then Infinity
      else if round64 x \<le> - (2 ^ 1024) then MinusInfinity
      else Num (round64 x))"

text \<open>The operators \<^verbatim>\<open>+\<close>, \<^verbatim>\<open>-\<close> and \<^verbatim>\<open>*\<close> on numbers, and \<^verbatim>\<open>Math.floor\<close>.\<close>

fun dneg :: "double \<Rightarrow> double" where
  "dneg (Num x) = Num (- x)"
| "dneg Infinity = MinusInfinity"
| "dneg MinusInfinity = Infinity"
| "dneg NaN = NaN"

fun dadd :: "double \<Rightarrow> double \<Rightarrow> double" where
  "dadd (Num x) (Num y) = to_double (x + y)"
| "dadd NaN b = NaN"
| "dadd a NaN = NaN"
| "dadd Infinity MinusInfinity = NaN"
| "dadd MinusInfinity Infinity = NaN"
| "dadd Infinity b = Infinity"
| "dadd a Infinity = Infinity"
| "dadd MinusInfinity b = MinusInfinity"
| "dadd a MinusInfinity = MinusInfinity"

definition dsub :: "double \<Rightarrow> double \<Rightarrow> double" where
  "dsub a b = dadd a (dneg b)"

text \<open>
  The sign of a number, 0 for a zero and for NaN: the product with an infinity is NaN
  when the other factor is a zero or NaN, and an infinity of the product's sign otherwise.
\<close>

fun dsign :: "double \<Rightarrow> int" where
  "dsign (Num x) = (if x < 0 then - 1 else if 0 < x then 1 else 0)"
| "dsign Infinity = 1"
| "dsign MinusInfinity = - 1"
| "dsign NaN = 0"

definition dmul :: "double \<Rightarrow> double \<Rightarrow> double" where
  "dmul a b =
     (case (a, b) of
        (Num x, Num y) \<Rightarrow> to_double (x * y)
      | _ \<Rightarrow>
          if dsign a * dsign b = 0 then NaN
          else if 0 < dsign a * dsign b then Infinity else MinusInfinity)"

fun dfloor :: "double \<Rightarrow> double" where
  "dfloor (Num x) = Num (of_int \<lfloor>x\<rfloor>)"
| "dfloor d = d"

section \<open>Argument validation (zod)\<close>

text \<open>The name zod gives the type of a value in an issue.\<close>

fun parsedType :: "json option \<Rightarrow> string" where
  "parsedType None = ''undefined''"
| "parsedType (Some JNull) = ''null''"
| "parsedType (Some (JBool b)) = ''boolean''"
| "parsedType (Some (JNum n)) = ''number''"
| "parsedType (Some (JStr s)) = ''string''"
| "parsedType (Some (JArr xs)) = ''array''"
| "parsedType (Some (JObj kvs)) = ''object''"

text \<open>
  A schema takes the path of the value and the value, and gives the issues or the parsed
  value. \<^verbatim>\<open>z.string()\<close>, \<^verbatim>\<open>z.number()\<close> and \<^verbatim>\<open>.optional()\<close>:
\<close>

fun z_string :: "string list \<Rightarrow> json option \<Rightarrow> zod_issue list + string" where
  "z_string p (Some (JStr s)) = Inr s"
| "z_string p v = Inl [invalid_type ''string'' (parsedType v) p]"

fun z_number :: "string list \<Rightarrow> json option \<Rightarrow> zod_issue list + real" where
  "z_number p (Some (JNum n)) = Inr n"
| "z_number p v = Inl [invalid_type ''number'' (parsedType v) p]"

fun z_optional ::
  "(string list \<Rightarrow> json option \<Rightarrow> zod_issue list + 'a) \<Rightarrow>
   string list \<Rightarrow> json option \<Rightarrow> zod_issue list + 'a option" where
  "z_optional sch p None = Inr None"
| "z_optional sch p (Some v) = map_sum id Some (sch p (Some v))"

text \<open>
  The keys of \<^verbatim>\<open>z.object({...})\<close>: each key is validated at its own path, and the
  issues of all keys are reported together, in the order of the keys.
\<close>

definition z_key ::
  "string \<Rightarrow> (string list \<Rightarrow> json option \<Rightarrow> zod_issue list + 'a) \<Rightarrow>
   (string \<Rightarrow> json option) \<Rightarrow> zod_issue list + 'a" where
  "z_key k sch props = sch [k] (props k)"

fun issues :: "zod_issue list + 'a \<Rightarrow> zod_issue list" where
  "issues (Inl is) = is"
| "issues (Inr a) = []"

definition z_both ::
  "((string \<Rightarrow> json option) \<Rightarrow> zod_issue list + 'a) \<Rightarrow>
   ((string \<Rightarrow> json option) \<Rightarrow> zod_issue list + 'b) \<Rightarrow>
   (string \<Rightarrow> json option) \<Rightarrow> zod_issue list + ('a \<times> 'b)" where
  "z_both f g props =
     (case (f props, g props) of
        (Inr a, Inr b) \<Rightarrow> Inr (a, b)
      | (r, s) \<Rightarrow> Inl (issues r @ issues s))"

text \<open>
  \<^verbatim>\<open>z.object(shape).parse(args)\<close>: a value that is not an object is one issue at the
  empty path; unknown keys of an object are dropped; any issue is thrown as a ZodError.
\<close>

definition z_object ::
  "((string \<Rightarrow> json option) \<Rightarrow> zod_issue list + 'a) \<Rightarrow> json option \<Rightarrow> fault + 'a" where
  "z_object shape args =
     (case args of
        Some (JObj kvs) \<Rightarrow>
          (case shape (map_of kvs) of Inl is \<Rightarrow> Inl (ZodError is) | Inr a \<Rightarrow> Inr a)
      | _ \<Rightarrow> Inl (ZodError [invalid_type ''object'' (parsedType args) []]))"

section \<open>The request handlers registered in createMCPServer\<close>

text \<open>
  Both variants of the worker (HTTP and socket) register the same six handlers. A
  handler takes \<^verbatim>\<open>request.params\<close> and returns its result or throws.
\<close>

definition ListToolsRequestHandler :: json where
  "ListToolsRequestHandler =
     JObj [(''tools'', JArr [
       JObj [(''name'', JStr ''echo''),
             (''description'', JStr ''Echo back the input text''),
             (''inputSchema'', JObj [
                (''type'', JStr ''object''),
                (''properties'', JObj [
                   (''text'', JObj [(''type'', JStr ''string''),
                                    (''description'', JStr ''Text to echo back'')])]),
                (''required'', JArr [JStr ''text''])])],
       JObj [(''name'', JStr ''get_time''),
             (''description'', JStr ''Get the current time''),
             (''inputSchema'', JObj [
                (''type'', JStr ''object''),
                (''properties'', JObj [])])],
       JObj [(''name'', JStr ''random_number''),
             (''description'', JStr ''Generate a random number between min and max''),
             (''inputSchema'', JObj [
                (''type'', JStr ''object''),
                (''properties'', JObj [
                   (''min'', JObj [(''type'', JStr ''number''),
                                   (''description'', JStr ''Minimum value'')]),
                   (''max'', JObj [(''type'', JStr ''number''),
                                   (''description'', JStr ''Maximum value'')])]),
                (''required'', JArr [JStr ''min'', JStr ''max''])])]])]"

definition text_content :: "string \<Rightarrow> json" where
  "text_content t = JObj [(''content'', JArr [JObj [(''type'', JStr ''text''), (''text'', JStr t)]])]"

text \<open>
  \<^verbatim>\<open>Math.floor(Math.random() * (randomArgs.max - randomArgs.min + 1)) + randomArgs.min\<close>,
  every operation on doubles.
\<close>

definition randomNum :: "runtime \<Rightarrow> real \<Rightarrow> real \<Rightarrow> double" where
  "randomNum rt mn mx =
     dadd (dfloor (dmul (Num (Math_random rt)) (dadd (dsub (Num mx) (Num mn)) (Num 1))))
          (Num mn)"

text \<open>The text of a number in a template literal, the infinities and NaN by their names.\<close>

fun number_text :: "runtime \<Rightarrow> double \<Rightarrow> string" where
  "number_text rt (Num x) = Number_toString rt x"
| "number_text rt Infinity = ''Infinity''"
| "number_text rt MinusInfinity = ''-Infinity''"
| "number_text rt NaN = ''NaN''"

definition CallToolRequestHandler :: "runtime \<Rightarrow> json option \<Rightarrow> fault + json" where
  "CallToolRequestHandler rt params =
     (case member params ''name'' of Inl e \<Rightarrow> Inl e | Inr name \<Rightarrow>
      (case member params ''arguments'' of Inl e \<Rightarrow> Inl e | Inr args \<Rightarrow>
         if name = Some (JStr ''echo'') then
           (case z_object (z_key ''text'' z_string) args of
              Inl e \<Rightarrow> Inl e
            | Inr text \<Rightarrow> Inr (text_content (''Echo: '' @ text)))
         else if name = Some (JStr ''get_time'') then
           Inr (text_content (''Current time: '' @ Date_toISOString rt))
         else if name = Some (JStr ''random_number'') then
           (case z_object (z_both (z_key ''min'' z_number) (z_key ''max'' z_number)) args of
              Inl e \<Rightarrow> Inl e
            | Inr (mn, mx) \<Rightarrow>
                Inr (text_content
                  (''Random number between '' @ Number_toString rt mn @ '' and '' @
                   Number_toString rt mx @ '': '' @ number_text rt (randomNum rt mn mx))))
         else Inl (Error (''Unknown tool: '' @ template rt name))))"

definition ListResourcesRequestHandler :: json where
  "ListResourcesRequestHandler =
     JObj [(''resources'', JArr [
       JObj [(''uri'', JStr ''cloudflare://worker-info''),
             (''name'', JStr ''Worker Information''),
             (''description'', JStr ''Information about this Cloudflare Worker''),
             (''mimeType'', JStr ''application/json'')],
       JObj [(''uri'', JStr ''cloudflare://sample-data''),
             (''name'', JStr ''Sample Data''),
             (''description'', JStr ''Sample JSON data for testing''),
             (''mimeType'', JStr ''application/json'')]])]"

definition resource_contents :: "json \<Rightarrow> string \<Rightarrow> json" where
  "resource_contents uri t =
     JObj [(''contents'', JArr [
       JObj [(''uri'', uri), (''mimeType'', JStr ''application/json''), (''text'', JStr t)]])]"

definition worker_info :: "runtime \<Rightarrow> json" where
  "worker_info rt =
     JObj [(''name'', JStr ''Cloudflare MCP Server''),
           (''version'', JStr ''1.0.0''),
           (''runtime'', JStr ''Cloudflare Workers''),
           (''timestamp'', JStr (Date_toISOString rt)),
           (''features'', JArr [JStr ''tools'', JStr ''resources'', JStr ''prompts''])]"

definition sample_data :: "runtime \<Rightarrow> json" where
  "sample_data rt =
     JObj [(''items'', JArr [
              JObj [(''id'', JNum 1), (''name'', JStr ''Item 1''), (''value'', JStr ''Value 1'')],
              JObj [(''id'', JNum 2), (''name'', JStr ''Item 2''), (''value'', JStr ''Value 2'')],
              JObj [(''id'', JNum 3), (''name'', JStr ''Item 3''), (''value'', JStr ''Value 3'')]]),
           (''metadata'', JObj [(''total'', JNum 3),
                                (''generated'', JStr (Date_toISOString rt))])]"

definition ReadResourceRequestHandler :: "runtime \<Rightarrow> json option \<Rightarrow> fault + json" where
  "ReadResourceRequestHandler rt params =
     (case member params ''uri'' of Inl e \<Rightarrow> Inl e | Inr uri \<Rightarrow>
        if uri = Some (JStr ''cloudflare://worker-info'') then
          Inr (resource_contents (JStr ''cloudflare://worker-info'')
                 (JSON_stringify rt (worker_info rt) 2))
        else if uri = Some (JStr ''cloudflare://sample-data'') then
          Inr (resource_contents (JStr ''cloudflare://sample-data'')
                 (JSON_stringify rt (sample_data rt) 2))
        else Inl (Error (''Unknown resource: '' @ template rt uri)))"

definition ListPromptsRequestHandler :: json where
  "ListPromptsRequestHandler =
     JObj [(''prompts'', JArr [
       JObj [(''name'', JStr ''explain_code''),
             (''description'', JStr ''Explain how a piece of code works''),
             (''arguments'', JArr [
                JObj [(''name'', JStr ''code''),
                      (''description'', JStr ''The code to explain''),
                      (''required'', JBool True)],
                JObj [(''name'', JStr ''language''),
                      (''description'', JStr ''The programming language''),
                      (''required'', JBool False)]])],
       JObj [(''name'', JStr ''debug_help''),
             (''description'', JStr ''Help debug an issue''),
             (''arguments'', JArr [
                JObj [(''name'', JStr ''error''),
                      (''description'', JStr ''The error message or description''),
                      (''required'', JBool True)],
                JObj [(''name'', JStr ''context''),
                      (''description'', JStr ''Additional context about the problem''),
                      (''required'', JBool False)]])]])]"

definition prompt_result :: "string \<Rightarrow> string \<Rightarrow> json" where
  "prompt_result d t =
     JObj [(''description'', JStr d),
           (''messages'', JArr [
              JObj [(''role'', JStr ''user''),
                    (''content'', JObj [(''type'', JStr ''text''), (''text'', JStr t)])]])]"

text \<open>\<^verbatim>\<open>s || d\<close> on an optional string: the default for \<^verbatim>\<open>undefined\<close> and for the empty string.\<close>

fun or_else :: "string option \<Rightarrow> string \<Rightarrow> string" where
  "or_else None d = d"
| "or_else (Some s) d = (if s = [] then d else s)"

definition GetPromptRequestHandler :: "runtime \<Rightarrow> json option \<Rightarrow> fault + json" where
  \<open>GetPromptRequestHandler rt params =
     (case member params ''name'' of Inl e \<Rightarrow> Inl e | Inr name \<Rightarrow>
      (case member params ''arguments'' of Inl e \<Rightarrow> Inl e | Inr args \<Rightarrow>
         if name = Some (JStr ''explain_code'') then
           (case z_object (z_both (z_key ''code'' z_string)
                                  (z_key ''language'' (z_optional z_string))) args of
              Inl e \<Rightarrow> Inl e
            | Inr (code, language) \<Rightarrow>
                Inr (prompt_result ''Explain how this code works''
                  (''Please explain how this '' @ or_else language ''code'' @
                   '' works:\<newline>\<newline>```'' @ or_else language [] @ ''\<newline>'' @ code @
                   ''\<newline>```\<newline>\<newline>Break down the logic and explain what each part does.'')))
         else if name = Some (JStr ''debug_help'') then
           (case z_object (z_both (z_key ''error'' z_string)
                                  (z_key ''context'' (z_optional z_string))) args of
              Inl e \<Rightarrow> Inl e
            | Inr (err, context) \<Rightarrow>
                Inr (prompt_result ''Help debug this issue''
                  (''I'm encountering this error: '' @ err @ ''\<newline>\<newline>'' @
                   (case context of
                      None \<Rightarrow> []
                    | Some c \<Rightarrow> if c = [] then []
                                else ''Additional context: '' @ c @ ''\<newline>\<newline>'') @
                   ''Can you help me understand what's causing this issue and how to fix it?'')))
         else Inl (Error (''Unknown prompt: '' @ template rt name))))\<close>

text \<open>
  The registry: the keys of the entries a list handler returns under \<open>kind\<close>, read from
  the property \<open>key\<close> of each entry.
\<close>

definition listed :: "string \<Rightarrow> string \<Rightarrow> json \<Rightarrow> string list" where
  "listed kind key catalog =
     (case getprop catalog kind of
        Some (JArr entries) \<Rightarrow>
          concat (map (\<lambda>entry. case getprop entry key of Some (JStr s) \<Rightarrow> [s] | _ \<Rightarrow> []) entries)
      | _ \<Rightarrow> [])"

section \<open>The dispatcher\<close>

text \<open>
  What \<^verbatim>\<open>this.server.handleRequest(message)\<close> can do as far as its two callers see: it
  throws, or it returns a value (\<^verbatim>\<open>undefined\<close> included). The functions of the
  transports take it as an argument.
\<close>

type_synonym dispatcher = "json \<Rightarrow> fault + json option"

text \<open>
  Modelled from the spec: \<^verbatim>\<open>Server.handleRequest\<close>, the method of the protocol library's
  server object that routes a decoded envelope to the registered handlers, is not under
  src/. Section 4.1 of the specification gives its contract: it returns nothing for
  notification-shaped input; it routes by method name to the six request kinds; a fault
  of a handler is not answered here but reaches the caller ("caught at the top level");
  and a result comes back in a response envelope \<open>{version, id, result}\<close> that echoes
  the id. The specification says nothing about a message that is not an object or whose
  method is not one of the six: there the model does what its argument \<open>other\<close> does.
  The handlers themselves are the source's.
\<close>

text \<open>
  Modelled from the spec: the test of \<^verbatim>\<open>Server.handleRequest\<close> for a notification, by
  section 3 an envelope whose id is absent or null.
\<close>

definition notification_shaped :: "json \<Rightarrow> bool" where
  "notification_shaped msg = (getprop msg ''id'' = None \<or> getprop msg ''id'' = Some JNull)"

text \<open>
  Modelled from the spec: the response envelope of \<^verbatim>\<open>Server.handleRequest\<close> for a result,
  by section 3 \<open>{version, id, result}\<close>.
\<close>

definition result_envelope :: "json \<Rightarrow> json \<Rightarrow> json" where
  "result_envelope i r = JObj [(''jsonrpc'', JStr ''2.0''), (''id'', i), (''result'', r)]"

text \<open>
  Modelled from the spec: what \<^verbatim>\<open>Server.handleRequest\<close> makes of the outcome of a handler,
  the fault handed on and the result in the envelope with the id of the request.
\<close>

definition respond :: "json \<Rightarrow> fault + json \<Rightarrow> fault + json option" where
  "respond msg out =
     (case out of
        Inl e \<Rightarrow> Inl e
      | Inr r \<Rightarrow> (case getprop msg ''id'' of
                    None \<Rightarrow> Inr None
                  | Some i \<Rightarrow> Inr (Some (result_envelope i r))))"

text \<open>
  Modelled from the spec: \<^verbatim>\<open>Server.handleRequest\<close> itself, the routing of section 4.1.
\<close>

definition handleRequest :: "runtime \<Rightarrow> dispatcher \<Rightarrow> dispatcher" where
  "handleRequest rt other msg =
     (case msg of
        JObj kvs \<Rightarrow>
          if notification_shaped msg then Inr None
          else if map_of kvs ''method'' = Some (JStr ''tools/list'') then
            respond msg (Inr ListToolsRequestHandler)
          else if map_of kvs ''method'' = Some (JStr ''tools/call'') then
            respond msg (CallToolRequestHandler rt (map_of kvs ''params''))
          else if map_of kvs ''method'' = Some (JStr ''resources/list'') then
            respond msg (Inr ListResourcesRequestHandler)
          else if map_of kvs ''method'' = Some (JStr ''resources/read'') then
            respond msg (ReadResourceRequestHandler rt (map_of kvs ''params''))
          else if map_of kvs ''method'' = Some (JStr ''prompts/list'') then
            respond msg (Inr ListPromptsRequestHandler)
          else if map_of kvs ''method'' = Some (JStr ''prompts/get'') then
            respond msg (GetPromptRequestHandler rt (map_of kvs ''params''))
          else other msg
      | _ \<Rightarrow> other msg)"

section \<open>The HTTP transport (the worker's fetch, streamable variant)\<close>

text \<open>
  Of a request the worker reads the method, the parts of the URL, and the body, which
  \<^verbatim>\<open>request.json()\<close> parses as JSON. A response is its status (200 where the source
  gives none), the headers the source sets, and the body: none, a string, or the readable
  end of the stream, given by what was done at its writer. The console is not modelled.
\<close>

record request =
  http_method :: string
  protocol :: string
  host :: string
  pathname :: string
  body_text :: string

datatype stream_op = Write string | CloseWriter

datatype body = No_body | Text_body string | Readable "stream_op list"

record response =
  status :: nat
  headers :: "(string \<times> string) list"
  body :: body

text \<open>The error envelope both catch branches build, with the id and the data they put in.\<close>

definition error_envelope :: "json \<Rightarrow> string \<Rightarrow> json" where
  "error_envelope i d =
     JObj [(''jsonrpc'', JStr ''2.0''),
           (''id'', i),
           (''error'', JObj [(''code'', JNum (- 32603)),
                             (''message'', JStr ''Internal error''),
                             (''data'', JStr d)])]"

definition handleMCPRequest :: "dispatcher \<Rightarrow> json \<Rightarrow> fault + json option" where
  "handleMCPRequest server_handleRequest jsonRpcMessage = server_handleRequest jsonRpcMessage"

definition serverInfo :: "request \<Rightarrow> json" where
  "serverInfo req =
     JObj [(''name'', JStr ''Cloudflare MCP Server''),
           (''version'', JStr ''1.0.0''),
           (''description'', JStr ''A Model Context Protocol server running on Cloudflare Workers''),
           (''protocols'', JArr [JStr ''http-streamable'']),
           (''capabilities'', JObj [(''tools'', JBool True), (''resources'', JBool True),
                                    (''prompts'', JBool True)]),
           (''endpoints'', JObj [(''mcp'', JStr (protocol req @ ''//'' @ host req @ ''/mcp''))]),
           (''documentation'', JStr ''Send POST requests with JSON-RPC messages to /mcp endpoint''),
           (''usage'', JObj [
              (''method'', JStr ''POST''),
              (''url'', JStr ''/mcp''),
              (''headers'', JObj [(''Content-Type'', JStr ''application/json'')]),
              (''body'', JStr ''JSON-RPC 2.0 message''),
              (''response'', JStr ''Server-Sent Events (text/event-stream)'')])]"

text \<open>The catch branch of the POST /mcp case.\<close>

definition fetch_catch :: "runtime \<Rightarrow> fault \<Rightarrow> response" where
  "fetch_catch rt e =
     \<lparr>status = 500,
      headers = [(''Content-Type'', ''application/json''),
                 (''Access-Control-Allow-Origin'', ''*'')],
      body = Text_body (JSON_stringify rt (error_envelope JNull (message_of rt e)) 0)\<rparr>"

text \<open>
  What \<^verbatim>\<open>await\<close> makes of a promise: its value, or nothing when the promise never
  settles; then the function that awaits it never goes on, and never returns.
\<close>

datatype 'a awaited = Settled 'a | Never

text \<open>
  The writer of a new TransformStream. The promise of \<^verbatim>\<open>write(chunk)\<close> settles when the
  chunk has been taken at the readable end, so only while something reads there
  (\<open>reading\<close>); the promise of \<^verbatim>\<open>close()\<close> settles once nothing written is left. The
  second argument is what was done at the writer before.
\<close>

definition writer_write :: "bool \<Rightarrow> stream_op list \<Rightarrow> string \<Rightarrow> stream_op list awaited" where
  "writer_write reading done chunk = (if reading then Settled (done @ [Write chunk]) else Never)"

definition writer_close :: "stream_op list \<Rightarrow> stream_op list awaited" where
  "writer_close done = Settled (done @ [CloseWriter])"

text \<open>\<^verbatim>\<open>`data: ${JSON.stringify(response)}\n\n`\<close>\<close>

definition sseData :: "runtime \<Rightarrow> json \<Rightarrow> string" where
  \<open>sseData rt r = ''data: '' @ JSON_stringify rt r 0 @ ''\<newline>\<newline>''\<close>

text \<open>
  The try block after the dispatcher has answered: the write, if the answer is truthy,
  the close, and the response that takes the readable end. Nothing reads the readable
  end before the response is returned, so the write is awaited while nothing reads.
\<close>

definition stream_response :: "runtime \<Rightarrow> json option \<Rightarrow> response awaited" where
  "stream_response rt resp =
     (case (case resp of
              None \<Rightarrow> Settled []
            | Some r \<Rightarrow> if truthy (Some r) then writer_write False [] (sseData rt r)
                        else Settled []) of
        Never \<Rightarrow> Never
      | Settled written \<Rightarrow>
          (case writer_close written of
             Never \<Rightarrow> Never
           | Settled ops \<Rightarrow>
               Settled
                 \<lparr>status = 200,
                  headers = [(''Content-Type'', ''text/event-stream''),
                             (''Cache-Control'', ''no-cache''),
                             (''Connection'', ''keep-alive''),
                             (''Access-Control-Allow-Origin'', ''*''),
                             (''Access-Control-Allow-Headers'', ''Content-Type, Authorization'')],
                  body = Readable ops\<rparr>))"

definition fetch :: "runtime \<Rightarrow> dispatcher \<Rightarrow> request \<Rightarrow> response awaited" where
  "fetch rt server_handleRequest req =
     (if http_method req = ''OPTIONS'' then
        Settled
          \<lparr>status = 200,
           headers = [(''Access-Control-Allow-Origin'', ''*''),
                      (''Access-Control-Allow-Methods'', ''GET, POST, OPTIONS''),
                      (''Access-Control-Allow-Headers'', ''Content-Type, Authorization'')],
           body = No_body\<rparr>
      else if http_method req = ''POST'' \<and> pathname req = ''/mcp'' then
        (case JSON_parse rt (body_text req) of
           Inl e \<Rightarrow> Settled (fetch_catch rt e)
         | Inr jsonRpcMessage \<Rightarrow>
             (case handleMCPRequest server_handleRequest jsonRpcMessage of
                Inl e \<Rightarrow> Settled (fetch_catch rt e)
              | Inr resp \<Rightarrow> stream_response rt resp))
      else if pathname req = ''/'' then
        Settled
          \<lparr>status = 200,
           headers = [(''Content-Type'', ''application/json''),
                      (''Access-Control-Allow-Origin'', ''*'')],
           body = Text_body (JSON_stringify rt (serverInfo req) 2)\<rparr>
      else Settled \<lparr>status = 404, headers = [], body = Text_body ''Not Found''\<rparr>)"

section \<open>The socket transport (methods of MCPServerObject, socket variant)\<close>

text \<open>
  A frame is a string or an ArrayBuffer (its bytes). What a method does to the socket it is
  given is the list of the calls it makes on it, in order; the calls are taken to succeed.
\<close>

datatype message = Text string | ArrayBuffer "nat list"

datatype ws_call = Accept | Send string | Close nat string

text \<open>
  \<^verbatim>\<open>JSON.parse(message as string)\<close>: the cast changes nothing at run time, and
  \<^verbatim>\<open>JSON.parse\<close> converts its argument to a string first, an ArrayBuffer to
  \<^verbatim>\<open>"[object ArrayBuffer]"\<close>.
\<close>

fun as_string :: "message \<Rightarrow> string" where
  "as_string (Text s) = s"
| "as_string (ArrayBuffer bs) = ''[object ArrayBuffer]''"

text \<open>\<^verbatim>\<open>parsedMessage.id || null\<close>\<close>

definition or_null :: "json option \<Rightarrow> json" where
  "or_null v = (case v of None \<Rightarrow> JNull | Some j \<Rightarrow> if truthy (Some j) then j else JNull)"

text \<open>The catch branch of webSocketMessage, with its inner try and catch.\<close>

definition webSocketMessage_catch :: "runtime \<Rightarrow> message \<Rightarrow> fault \<Rightarrow> ws_call list" where
  "webSocketMessage_catch rt msg e =
     (case JSON_parse rt (as_string msg) of
        Inl e' \<Rightarrow> [Close 1011 ''Internal error'']
      | Inr parsedMessage \<Rightarrow>
          (case member (Some parsedMessage) ''id'' of
             Inl e' \<Rightarrow> [Close 1011 ''Internal error'']
           | Inr i \<Rightarrow> [Send (JSON_stringify rt (error_envelope (or_null i) (message_of rt e)) 0)]))"

definition webSocketMessage :: "runtime \<Rightarrow> dispatcher \<Rightarrow> message \<Rightarrow> ws_call list" where
  "webSocketMessage rt server_handleRequest msg =
     (case msg of
        ArrayBuffer bs \<Rightarrow> webSocketMessage_catch rt msg (Error ''Expected string message'')
      | Text s \<Rightarrow>
          (case JSON_parse rt s of
             Inl e \<Rightarrow> webSocketMessage_catch rt msg e
           | Inr jsonrpcMessage \<Rightarrow>
               (case server_handleRequest jsonrpcMessage of
                  Inl e \<Rightarrow> webSocketMessage_catch rt msg e
                | Inr None \<Rightarrow> []
                | Inr (Some r) \<Rightarrow>
                    if truthy (Some r) then [Send (JSON_stringify rt r 0)] else [])))"

text \<open>The state of the object: the set of open connections (\<^verbatim>\<open>this.sessions\<close>).\<close>

record 'w MCPServerObject =
  sessions :: "'w set"

definition webSocketClose :: "'w MCPServerObject \<Rightarrow> 'w \<Rightarrow> nat \<Rightarrow> string \<Rightarrow> 'w MCPServerObject" where
  "webSocketClose this ws code reason = this\<lparr>sessions := sessions this - {ws}\<rparr>"

definition webSocketError :: "'w MCPServerObject \<Rightarrow> 'w \<Rightarrow> 'w MCPServerObject" where
  "webSocketError this ws = this\<lparr>sessions := sessions this - {ws}\<rparr>"

definition initMessage :: json where
  "initMessage =
     JObj [(''jsonrpc'', JStr ''2.0''),
           (''method'', JStr ''notifications/initialized''),
           (''params'', JObj [])]"

definition acceptWebSocket ::
  "runtime \<Rightarrow> 'w MCPServerObject \<Rightarrow> 'w \<Rightarrow> 'w MCPServerObject \<times> ws_call list" where
  "acceptWebSocket rt this ws =
     (this\<lparr>sessions := insert ws (sessions this)\<rparr>,
      [Accept, Send (JSON_stringify rt initMessage 0)])"

text \<open>
  The host hands the object one event at a time, each handled to its end before the
  next: a connection accepted (the upgrade request of fetch calls acceptWebSocket), a
  frame received on a connection, a connection closed, a connection failed. A run gives
  the final state and every call made on a socket, in order.
\<close>

datatype 'w event =
    Accepted 'w
  | Received 'w message
  | Closed 'w nat string
  | Failed 'w

fun deliver ::
  "runtime \<Rightarrow> dispatcher \<Rightarrow> 'w MCPServerObject \<Rightarrow> 'w event \<Rightarrow>
   'w MCPServerObject \<times> ('w \<times> ws_call) list" where
  "deliver rt hr this (Accepted ws) =
     (case acceptWebSocket rt this ws of (this', calls) \<Rightarrow> (this', map (Pair ws) calls))"
| "deliver rt hr this (Received ws msg) = (this, map (Pair ws) (webSocketMessage rt hr msg))"
| "deliver rt hr this (Closed ws code reason) = (webSocketClose this ws code reason, [])"
| "deliver rt hr this (Failed ws) = (webSocketError this ws, [])"

fun run ::
  "runtime \<Rightarrow> dispatcher \<Rightarrow> 'w MCPServerObject \<Rightarrow> 'w event list \<Rightarrow>
   'w MCPServerObject \<times> ('w \<times> ws_call) list" where
  "run rt hr this [] = (this, [])"
| "run rt hr this (ev # evs) =
     (case deliver rt hr this ev of (this', calls) \<Rightarrow>
        (case run rt hr this' evs of (this'', calls') \<Rightarrow> (this'', calls @ calls')))"

section \<open>A runtime and frames to run the model on\<close>

text \<open>
  The theorems below hold for every runtime. To run the definitions on concrete frames,
  this one fixes the clock and the draw, prints whole numbers in decimal (the frames use
  no other number), writes JSON without indentation and without escapes (the strings of
  the frames need none), and parses the frames listed in its table.
\<close>

fun show_nat :: "nat \<Rightarrow> string" where
  "show_nat n =
     (if n < 10 then [''0123456789'' ! n]
      else show_nat (n div 10) @ [''0123456789'' ! (n mod 10)])"

declare show_nat.simps [simp del]

definition show_int :: "int \<Rightarrow> string" where
  "show_int i = (if i < 0 then ''-'' @ show_nat (nat (- i)) else show_nat (nat i))"

fun write_json :: "json \<Rightarrow> string" where
  \<open>write_json JNull = ''null''\<close>
| \<open>write_json (JBool b) = (if b then ''true'' else ''false'')\<close>
| \<open>write_json (JNum n) = show_int \<lfloor>n\<rfloor>\<close>
| \<open>write_json (JStr s) = ''"'' @ s @ ''"''\<close>
| \<open>write_json (JArr xs) = ''['' @ join '','' (map write_json xs) @ '']''\<close>
| \<open>write_json (JObj kvs) =
     ''{'' @ join '','' (map (\<lambda>kv. ''"'' @ fst kv @ ''":'' @ write_json (snd kv)) kvs) @ ''}''\<close>

definition frame_nope :: string where
  \<open>frame_nope = ''{"jsonrpc":"2.0","id":1,"method":"tools/call","params":{"name":"nope","arguments":{}}}''\<close>

definition frame_nope_id0 :: string where
  \<open>frame_nope_id0 = ''{"jsonrpc":"2.0","id":0,"method":"tools/call","params":{"name":"nope","arguments":{}}}''\<close>

definition frame_notification :: string where
  \<open>frame_notification = ''{"jsonrpc":"2.0","method":"notifications/initialized"}''\<close>

definition frame_read_missing :: string where
  \<open>frame_read_missing = ''{"jsonrpc":"2.0","id":2,"method":"resources/read","params":{"uri":"cloudflare://nope"}}''\<close>

definition frame_prompt_missing :: string where
  \<open>frame_prompt_missing = ''{"jsonrpc":"2.0","id":"p","method":"prompts/get","params":{"name":"nope"}}''\<close>

definition frame_echo :: string where
  \<open>frame_echo = ''{"jsonrpc":"2.0","id":3,"method":"tools/call","params":{"name":"echo","arguments":{"text":"Hello, MCP!"}}}''\<close>

definition call_nope :: "json \<Rightarrow> json" where
  "call_nope i =
     JObj [(''jsonrpc'', JStr ''2.0''), (''id'', i), (''method'', JStr ''tools/call''),
           (''params'', JObj [(''name'', JStr ''nope''), (''arguments'', JObj [])])]"

definition test_table :: "(string \<times> json) list" where
  "test_table =
     [(''null'', JNull),
      (frame_nope, call_nope (JNum 1)),
      (frame_nope_id0, call_nope (JNum 0)),
      (frame_notification,
         JObj [(''jsonrpc'', JStr ''2.0''), (''method'', JStr ''notifications/initialized'')]),
      (frame_echo,
         JObj [(''jsonrpc'', JStr ''2.0''), (''id'', JNum 3), (''method'', JStr ''tools/call''),
               (''params'', JObj [(''name'', JStr ''echo''),
                                  (''arguments'', JObj [(''text'', JStr ''Hello, MCP!'')])])]),
      (frame_read_missing,
         JObj [(''jsonrpc'', JStr ''2.0''), (''id'', JNum 2), (''method'', JStr ''resources/read''),
               (''params'', JObj [(''uri'', JStr ''cloudflare://nope'')])]),
      (frame_prompt_missing,
         JObj [(''jsonrpc'', JStr ''2.0''), (''id'', JStr ''p''), (''method'', JStr ''prompts/get''),
               (''params'', JObj [(''name'', JStr ''nope'')])])]"

definition test_runtime :: runtime where
  "test_runtime =
     \<lparr>Date_toISOString = ''2025-01-01T00:00:00.000Z'',
      Math_random = 1 / 2,
      Number_toString = (\<lambda>x. show_int \<lfloor>x\<rfloor>),
      JSON_parse = (\<lambda>s. case map_of test_table s of None \<Rightarrow> Inl SyntaxError | Some j \<Rightarrow> Inr j),
      JSON_stringify = (\<lambda>j indent. write_json j),
      thrown_message = (\<lambda>e. case e of
          Error m \<Rightarrow> m
        | TypeError \<Rightarrow> ''Cannot read properties''
        | SyntaxError \<Rightarrow> ''Unexpected token''
        | ZodError is \<Rightarrow> ''Invalid input'')\<rparr>"

text \<open>A dispatcher that throws on every message, and its use for what the spec leaves open.\<close>

definition refuse :: dispatcher where
  "refuse msg = Inl (Error ''Method not found'')"

definition post_mcp :: "string \<Rightarrow> request" where
  "post_mcp s =
     \<lparr>http_method = ''POST'', protocol = ''https:'', host = ''example.com'', pathname = ''/mcp'',
      body_text = s\<rparr>"

section \<open>What the transports do with the outcome of the dispatcher\<close>

text \<open>
  The socket handler after a parse that succeeded: a fault of the dispatcher is answered
  with the error envelope (unless the parsed value is null, whose id cannot be read), a
  value is sent when it is truthy.
\<close>

lemma webSocketMessage_fault:
  assumes "JSON_parse rt s = Inr j" and "j \<noteq> JNull" and "hr j = Inl e"
  shows "webSocketMessage rt hr (Text s) =
           [Send (JSON_stringify rt (error_envelope (or_null (getprop j ''id'')) (message_of rt e)) 0)]"
  using assms by (cases j) (simp_all add: webSocketMessage_def webSocketMessage_catch_def)

lemma webSocketMessage_answer:
  assumes "JSON_parse rt s = Inr j" and "hr j = Inr r"
  shows "webSocketMessage rt hr (Text s) =
           (case r of None \<Rightarrow> [] | Some v \<Rightarrow> if truthy (Some v) then [Send (JSON_stringify rt v 0)] else [])"
  using assms by (simp add: webSocketMessage_def split: option.splits)

text \<open>
  The POST /mcp branch of fetch: the catch branch on a fault; otherwise the stream, which
  is closed unwritten when the dispatcher gave nothing to send, while with something to
  send the awaited write never settles and fetch never returns.
\<close>

lemma fetch_unparsed:
  assumes "http_method req = ''POST''" and "pathname req = ''/mcp''"
    and "JSON_parse rt (body_text req) = Inl e"
  shows "fetch rt hr req = Settled (fetch_catch rt e)"
  using assms by (simp add: fetch_def)

lemma fetch_fault:
  assumes "http_method req = ''POST''" and "pathname req = ''/mcp''"
    and "JSON_parse rt (body_text req) = Inr j" and "hr j = Inl e"
  shows "fetch rt hr req = Settled (fetch_catch rt e)"
  using assms by (simp add: fetch_def handleMCPRequest_def)

lemma fetch_answer:
  assumes "http_method req = ''POST''" and "pathname req = ''/mcp''"
    and "JSON_parse rt (body_text req) = Inr j" and "hr j = Inr r"
  shows "fetch rt hr req = stream_response rt r"
  using assms by (simp add: fetch_def handleMCPRequest_def)

lemma stream_response_quiet:
  assumes "\<not> truthy r"
  shows "stream_response rt r =
     Settled
       \<lparr>status = 200,
        headers = [(''Content-Type'', ''text/event-stream''),
                   (''Cache-Control'', ''no-cache''),
                   (''Connection'', ''keep-alive''),
                   (''Access-Control-Allow-Origin'', ''*''),
                   (''Access-Control-Allow-Headers'', ''Content-Type, Authorization'')],
        body = Readable [CloseWriter]\<rparr>"
  using assms by (cases r) (simp_all add: stream_response_def writer_close_def)

lemma stream_response_pending:
  assumes "truthy r"
  shows "stream_response rt r = Never"
  using assms by (cases r) (simp_all add: stream_response_def writer_write_def)

section \<open>Rounding to a double\<close>

lemma round_even_upper: "of_int (round_even q) \<le> q + 1 / 2"
  unfolding round_even_def by (simp; linarith)

lemma round_even_nonneg: "0 \<le> q \<Longrightarrow> 0 \<le> round_even q"
  unfolding round_even_def by (simp; linarith)

lemma ulp_pos: "0 < ulp x"
  by (simp add: ulp_def)

lemma round64_upper: "round64 x \<le> x + ulp x / 2"
proof (cases "x = 0")
  case True
  then show ?thesis using ulp_pos [of 0] by (simp add: round64_def)
next
  case False
  have "of_int (round_even (x / ulp x)) * ulp x \<le> (x / ulp x + 1 / 2) * ulp x"
    using round_even_upper [of "x / ulp x"] ulp_pos [of x] by (simp add: mult_right_mono)
  also have "\<dots> = x + ulp x / 2"
    using ulp_pos [of x] by (simp add: field_simps)
  finally show ?thesis using False by (simp add: round64_def)
qed

lemma round64_nonneg: "0 \<le> x \<Longrightarrow> 0 \<le> round64 x"
  using ulp_pos [of x] round_even_nonneg [of "x / ulp x"] by (simp add: round64_def)

lemma expo_below_8: "0 \<le> x \<Longrightarrow> x < 8 \<Longrightarrow> expo x \<le> 2"
proof -
  assume x: "0 \<le> x" "x < 8"
  have "bitlen \<lfloor>x\<rfloor> \<le> 3"
    using x by (simp add: bitlen_le_iff_power floor_less_iff)
  moreover have "0 \<le> bitlen (\<lceil>1 / x\<rceil> - 1)"
    by (rule bitlen_nonneg)
  ultimately show ?thesis
    using x by (simp add: expo_def)
qed

lemma ulp_below_8: "0 \<le> x \<Longrightarrow> x < 8 \<Longrightarrow> ulp x \<le> 1 / 2 ^ 50"
proof -
  assume x: "0 \<le> x" "x < 8"
  then have e: "expo x \<le> 2" by (rule expo_below_8)
  then have "(2::real) ^ 50 \<le> 2 ^ nat (52 - expo x)"
    by (intro power_increasing) simp_all
  then have "1 / (2::real) ^ nat (52 - expo x) \<le> 1 / 2 ^ 50"
    by (intro divide_left_mono) simp_all
  moreover have "ulp x = 1 / 2 ^ nat (52 - expo x)"
    using e by (simp add: ulp_def)
  ultimately show ?thesis
    by simp
qed

lemma expo_from_8: "8 \<le> x \<Longrightarrow> x < 16 \<Longrightarrow> expo x = 3"
proof -
  assume x: "8 \<le> x" "x < 16"
  have "bitlen \<lfloor>x\<rfloor> \<le> 4"
    using x by (simp add: bitlen_le_iff_power floor_less_iff)
  moreover have "4 \<le> bitlen \<lfloor>x\<rfloor>"
    using x by (simp add: bitlen_ge_iff_power le_floor_iff)
  ultimately show ?thesis
    using x by (simp add: expo_def)
qed

lemma round64_below_10:
  assumes "0 \<le> x" and "x \<le> 10 - 10 / 2 ^ 53"
  shows "round64 x < 10"
proof (cases "x < 8")
  case True
  from assms(1) True have "ulp x \<le> 1 / 2 ^ 50" by (rule ulp_below_8)
  with round64_upper [of x] True show ?thesis by simp
next
  case False
  then have "8 \<le> x" and "x < 16" using assms by simp_all
  then have "expo x = 3" by (rule expo_from_8)
  then have "ulp x = 1 / 2 ^ 49" by (simp add: ulp_def)
  with round64_upper [of x] assms show ?thesis by simp
qed

lemma double_below_1:
  assumes "round64 u = u" and "0 \<le> u" and "u < 1"
  shows "u \<le> 1 - 1 / 2 ^ 53"
proof (cases "u < 1 / 2")
  case True
  then show ?thesis by simp
next
  case False
  then have half: "1 / 2 \<le> u" by simp
  have "1 < 1 / u" "1 / u \<le> 2"
    using half assms by (simp_all add: field_simps)
  then have "\<lceil>1 / u\<rceil> = 2"
    by (simp add: ceiling_eq_iff)
  then have "expo u = - 1"
    using assms half by (simp add: expo_def bitlen_alt_def)
  then have u53: "ulp u = 1 / 2 ^ 53" by (simp add: ulp_def)
  define n where "n = round_even (u / ulp u)"
  have "of_int n * ulp u = u"
    using assms(1) half by (simp add: round64_def n_def)
  then have eq: "u = of_int n / 2 ^ 53"
    by (simp add: u53)
  with assms have "real_of_int n < 2 ^ 53" by (simp add: field_simps)
  then have "n < 2 ^ 53" by simp
  then have "n \<le> 2 ^ 53 - 1" by simp
  then have "real_of_int n \<le> real_of_int (2 ^ 53 - 1)" by (simp only: of_int_le_iff)
  then have "real_of_int n \<le> 2 ^ 53 - 1" by simp
  then show ?thesis by (simp add: eq field_simps)
qed



lemma bitlen_small:
  "bitlen 1 = 1" "bitlen 2 = 2" "bitlen 3 = 2" "bitlen 4 = 3" "bitlen 5 = 3"
  "bitlen 6 = 3" "bitlen 7 = 3" "bitlen 8 = 4" "bitlen 9 = 4" "bitlen 10 = 4"
  by (simp_all add: compute_bitlen)

lemma small_exact:
  "round64 1 = 1" "round64 2 = 2" "round64 3 = 3" "round64 4 = 4" "round64 5 = 5"
  "round64 6 = 6" "round64 7 = 7" "round64 8 = 8" "round64 9 = 9" "round64 10 = 10"
  by (simp_all add: round64_def ulp_def expo_def round_even_def bitlen_small)

lemma to_double_exact:
  assumes "round64 x = x" and "\<bar>x\<bar> < 2 ^ 1024"
  shows "to_double x = Num x"
proof -
  from assms(2) have "x < 2 ^ 1024" and "- (2 ^ 1024) < x"
    by (simp_all add: abs_less_iff)
  then have "\<not> 2 ^ 1024 \<le> x" and "\<not> x \<le> - (2 ^ 1024)"
    by (simp_all only: not_le)
  with assms(1) show ?thesis
    by (simp only: to_double_def if_False)
qed

lemma to_double_small:
  "to_double 0 = Num 0" "to_double 1 = Num 1" "to_double 2 = Num 2" "to_double 3 = Num 3"
  "to_double 4 = Num 4" "to_double 5 = Num 5" "to_double 6 = Num 6" "to_double 7 = Num 7"
  "to_double 8 = Num 8" "to_double 9 = Num 9" "to_double 10 = Num 10"
  by (simp_all add: to_double_exact small_exact) (simp add: to_double_def round64_def)

section \<open>The registry and the handlers on names outside it\<close>

lemmas handler_defs =
  CallToolRequestHandler_def z_object_def z_key_def z_both_def text_content_def

lemma listed_tools: "listed ''tools'' ''name'' ListToolsRequestHandler = [''echo'', ''get_time'', ''random_number'']"
  by (simp add: listed_def ListToolsRequestHandler_def)

lemma listed_resources:
  "listed ''resources'' ''uri'' ListResourcesRequestHandler =
     [''cloudflare://worker-info'', ''cloudflare://sample-data'']"
  by (simp add: listed_def ListResourcesRequestHandler_def)

lemma listed_prompts:
  "listed ''prompts'' ''name'' ListPromptsRequestHandler = [''explain_code'', ''debug_help'']"
  by (simp add: listed_def ListPromptsRequestHandler_def)

lemma unknown_tool_thrown:
  assumes "map_of ps ''name'' = Some (JStr n)"
    and "n \<notin> set (listed ''tools'' ''name'' ListToolsRequestHandler)"
  shows "CallToolRequestHandler rt (Some (JObj ps)) = Inl (Error (''Unknown tool: '' @ n))"
  using assms by (simp add: listed_tools CallToolRequestHandler_def template_def)

lemma unknown_resource_thrown:
  assumes "map_of ps ''uri'' = Some (JStr n)"
    and "n \<notin> set (listed ''resources'' ''uri'' ListResourcesRequestHandler)"
  shows "ReadResourceRequestHandler rt (Some (JObj ps)) = Inl (Error (''Unknown resource: '' @ n))"
  using assms by (simp add: listed_resources ReadResourceRequestHandler_def template_def)

lemma unknown_prompt_thrown:
  assumes "map_of ps ''name'' = Some (JStr n)"
    and "n \<notin> set (listed ''prompts'' ''name'' ListPromptsRequestHandler)"
  shows "GetPromptRequestHandler rt (Some (JObj ps)) = Inl (Error (''Unknown prompt: '' @ n))"
  using assms by (simp add: listed_prompts GetPromptRequestHandler_def template_def)

lemma respond_fault: "respond msg (Inl e) = Inl e"
  by (simp add: respond_def)

lemma handleRequest_routes:
  assumes "map_of kvs ''id'' = Some i" and "i \<noteq> JNull"
  shows "map_of kvs ''method'' = Some (JStr ''tools/call'') \<Longrightarrow>
           handleRequest rt other (JObj kvs) =
             respond (JObj kvs) (CallToolRequestHandler rt (map_of kvs ''params''))"
    and "map_of kvs ''method'' = Some (JStr ''resources/read'') \<Longrightarrow>
           handleRequest rt other (JObj kvs) =
             respond (JObj kvs) (ReadResourceRequestHandler rt (map_of kvs ''params''))"
    and "map_of kvs ''method'' = Some (JStr ''prompts/get'') \<Longrightarrow>
           handleRequest rt other (JObj kvs) =
             respond (JObj kvs) (GetPromptRequestHandler rt (map_of kvs ''params''))"
  using assms by (simp_all add: handleRequest_def notification_shaped_def)

lemma handleRequest_unknown:
  assumes ident: "map_of kvs ''id'' = Some i" "i \<noteq> JNull"
    and params: "map_of kvs ''params'' = Some (JObj ps)"
    and unknown:
      "(map_of kvs ''method'' = Some (JStr ''tools/call'') \<and> map_of ps ''name'' = Some (JStr n)
          \<and> n \<notin> set (listed ''tools'' ''name'' ListToolsRequestHandler)
          \<and> d = ''Unknown tool: '' @ n)
       \<or> (map_of kvs ''method'' = Some (JStr ''resources/read'') \<and> map_of ps ''uri'' = Some (JStr n)
          \<and> n \<notin> set (listed ''resources'' ''uri'' ListResourcesRequestHandler)
          \<and> d = ''Unknown resource: '' @ n)
       \<or> (map_of kvs ''method'' = Some (JStr ''prompts/get'') \<and> map_of ps ''name'' = Some (JStr n)
          \<and> n \<notin> set (listed ''prompts'' ''name'' ListPromptsRequestHandler)
          \<and> d = ''Unknown prompt: '' @ n)"
  shows "handleRequest rt other (JObj kvs) = Inl (Error d)"
  using unknown
proof (elim disjE conjE)
  assume "map_of kvs ''method'' = Some (JStr ''tools/call'')" "map_of ps ''name'' = Some (JStr n)"
    "n \<notin> set (listed ''tools'' ''name'' ListToolsRequestHandler)" "d = ''Unknown tool: '' @ n"
  then show ?thesis
    using handleRequest_routes(1) [OF ident] params unknown_tool_thrown
    by (simp add: respond_fault)
next
  assume "map_of kvs ''method'' = Some (JStr ''resources/read'')" "map_of ps ''uri'' = Some (JStr n)"
    "n \<notin> set (listed ''resources'' ''uri'' ListResourcesRequestHandler)" "d = ''Unknown resource: '' @ n"
  then show ?thesis
    using handleRequest_routes(2) [OF ident] params unknown_resource_thrown
    by (simp add: respond_fault)
next
  assume "map_of kvs ''method'' = Some (JStr ''prompts/get'')" "map_of ps ''name'' = Some (JStr n)"
    "n \<notin> set (listed ''prompts'' ''name'' ListPromptsRequestHandler)" "d = ''Unknown prompt: '' @ n"
  then show ?thesis
    using handleRequest_routes(3) [OF ident] params unknown_prompt_thrown
    by (simp add: respond_fault)
qed

section \<open>The test runtime evaluated\<close>

lemmas test_frames =
  test_table_def frame_nope_def frame_nope_id0_def frame_notification_def
  frame_read_missing_def frame_prompt_missing_def frame_echo_def

lemma test_parse:
  "JSON_parse test_runtime s = (case map_of test_table s of None \<Rightarrow> Inl SyntaxError | Some j \<Rightarrow> Inr j)"
  by (simp add: test_runtime_def)

lemma test_parsed:
  "JSON_parse test_runtime ''null'' = Inr JNull"
  "JSON_parse test_runtime frame_nope = Inr (call_nope (JNum 1))"
  "JSON_parse test_runtime frame_nope_id0 = Inr (call_nope (JNum 0))"
  "JSON_parse test_runtime frame_notification =
     Inr (JObj [(''jsonrpc'', JStr ''2.0''), (''method'', JStr ''notifications/initialized'')])"
  "JSON_parse test_runtime frame_echo =
     Inr (JObj [(''jsonrpc'', JStr ''2.0''), (''id'', JNum 3), (''method'', JStr ''tools/call''),
               (''params'', JObj [(''name'', JStr ''echo''),
                                  (''arguments'', JObj [(''text'', JStr ''Hello, MCP!'')])])])"
  "JSON_parse test_runtime ''{'' = Inl SyntaxError"
  "JSON_parse test_runtime frame_read_missing =
     Inr (JObj [(''jsonrpc'', JStr ''2.0''), (''id'', JNum 2), (''method'', JStr ''resources/read''),
               (''params'', JObj [(''uri'', JStr ''cloudflare://nope'')])])"
  "JSON_parse test_runtime frame_prompt_missing =
     Inr (JObj [(''jsonrpc'', JStr ''2.0''), (''id'', JStr ''p''), (''method'', JStr ''prompts/get''),
               (''params'', JObj [(''name'', JStr ''nope'')])])"
  by (simp_all add: test_parse test_frames)

lemma test_write [simp]: "JSON_stringify test_runtime j k = write_json j"
  by (simp add: test_runtime_def)

lemma show_code:
  "show_int (- 32603) = ''-32603''" "show_int 1 = ''1''" "show_int 2 = ''2''" "show_int 3 = ''3''"
  by (simp_all add: show_int_def show_nat.simps)

lemma write_error_envelope:
  \<open>write_json (error_envelope i d) =
     ''{"jsonrpc":"2.0","id":'' @ write_json i @
     '',"error":{"code":-32603,"message":"Internal error","data":"'' @ d @ ''"}}''\<close>
  by (simp add: error_envelope_def show_code)

lemma call_nope_thrown:
  assumes "i \<noteq> JNull"
  shows "handleRequest rt other (call_nope i) = Inl (Error ''Unknown tool: nope'')"
  using assms handleRequest_unknown [of "[(''jsonrpc'', JStr ''2.0''), (''id'', i), (''method'', JStr ''tools/call''),
           (''params'', JObj [(''name'', JStr ''nope''), (''arguments'', JObj [])])]" i
           "[(''name'', JStr ''nope''), (''arguments'', JObj [])]" "''nope''" "''Unknown tool: nope''" rt other]
  by (simp add: call_nope_def listed_tools)

section \<open>Unknown tools, resources and prompts\<close>

text \<open>
  C1, as amended. A request (an envelope with an id that is not null) for tools/call,
  resources/read or prompts/get whose params name a tool, a resource or a prompt that no
  list handler returns is answered with an error envelope whose error has the code
  -32603, the message \<^verbatim>\<open>"Internal error"\<close>, and as data exactly
  \<^verbatim>\<open>"Unknown tool: <name>"\<close>, \<^verbatim>\<open>"Unknown resource: <uri>"\<close> or
  \<^verbatim>\<open>"Unknown prompt: <name>"\<close>: on the socket it is the one frame sent, over HTTP the
  body of the response, which has status 500 (there with the id null).
\<close>

theorem unknown_capability_error_envelope:
  assumes parse: "JSON_parse rt s = Inr (JObj kvs)"
    and ident: "map_of kvs ''id'' = Some i" "i \<noteq> JNull"
    and params: "map_of kvs ''params'' = Some (JObj ps)"
    and unknown:
      "(map_of kvs ''method'' = Some (JStr ''tools/call'') \<and> map_of ps ''name'' = Some (JStr n)
          \<and> n \<notin> set (listed ''tools'' ''name'' ListToolsRequestHandler)
          \<and> d = ''Unknown tool: '' @ n)
       \<or> (map_of kvs ''method'' = Some (JStr ''resources/read'') \<and> map_of ps ''uri'' = Some (JStr n)
          \<and> n \<notin> set (listed ''resources'' ''uri'' ListResourcesRequestHandler)
          \<and> d = ''Unknown resource: '' @ n)
       \<or> (map_of kvs ''method'' = Some (JStr ''prompts/get'') \<and> map_of ps ''name'' = Some (JStr n)
          \<and> n \<notin> set (listed ''prompts'' ''name'' ListPromptsRequestHandler)
          \<and> d = ''Unknown prompt: '' @ n)"
  shows "(\<exists>x. webSocketMessage rt (handleRequest rt other) (Text s) =
              [Send (JSON_stringify rt (error_envelope x d) 0)])
       \<and> (http_method req = ''POST'' \<and> pathname req = ''/mcp'' \<and> body_text req = s \<longrightarrow>
            fetch rt (handleRequest rt other) req =
              Settled
                \<lparr>status = 500,
                 headers = [(''Content-Type'', ''application/json''),
                            (''Access-Control-Allow-Origin'', ''*'')],
                 body = Text_body (JSON_stringify rt (error_envelope JNull d) 0)\<rparr>)
       \<and> (\<forall>x. getprop (error_envelope x d) ''error'' =
              Some (JObj [(''code'', JNum (- 32603)),
                          (''message'', JStr ''Internal error''),
                          (''data'', JStr d)]))"
proof -
  have thrown: "handleRequest rt other (JObj kvs) = Inl (Error d)"
    by (rule handleRequest_unknown [OF ident params unknown])
  have "webSocketMessage rt (handleRequest rt other) (Text s) =
          [Send (JSON_stringify rt (error_envelope (or_null (getprop (JObj kvs) ''id''))
             (message_of rt (Error d))) 0)]"
    using webSocketMessage_fault [of rt s "JObj kvs" "handleRequest rt other" "Error d"] parse thrown
    by simp
  then have socket: "\<exists>x. webSocketMessage rt (handleRequest rt other) (Text s) =
           [Send (JSON_stringify rt (error_envelope x d) 0)]"
    by (auto simp add: message_of_def)
  have http: "fetch rt (handleRequest rt other) req =
              Settled
                \<lparr>status = 500,
                 headers = [(''Content-Type'', ''application/json''),
                            (''Access-Control-Allow-Origin'', ''*'')],
                 body = Text_body (JSON_stringify rt (error_envelope JNull d) 0)\<rparr>"
    if "http_method req = ''POST''" and "pathname req = ''/mcp''" and "body_text req = s"
    using fetch_fault [of req rt "JObj kvs" "handleRequest rt other" "Error d"] that parse thrown
    by (simp add: fetch_catch_def message_of_def)
  show ?thesis
    using socket http by (simp add: error_envelope_def)
qed

text \<open>
  The request of the specification, tools/call with the name \<^verbatim>\<open>"nope"\<close>, and one request
  for a resource and for a prompt that are not registered.
\<close>

theorem unknown_capability_error_envelope_witness:
  \<open>(\<exists>x. webSocketMessage test_runtime (handleRequest test_runtime refuse) (Text frame_nope) =
     [Send (''{"jsonrpc":"2.0","id":'' @ write_json x @
            '',"error":{"code":-32603,"message":"Internal error","data":"Unknown tool: nope"}}'')])
   \<and> fetch test_runtime (handleRequest test_runtime refuse) (post_mcp frame_nope) =
       Settled
         \<lparr>status = 500,
          headers = [(''Content-Type'', ''application/json''), (''Access-Control-Allow-Origin'', ''*'')],
          body = Text_body ''{"jsonrpc":"2.0","id":null,"error":{"code":-32603,"message":"Internal error","data":"Unknown tool: nope"}}''\<rparr>
   \<and> (\<exists>x. webSocketMessage test_runtime (handleRequest test_runtime refuse) (Text frame_read_missing) =
     [Send (''{"jsonrpc":"2.0","id":'' @ write_json x @
            '',"error":{"code":-32603,"message":"Internal error","data":"Unknown resource: cloudflare://nope"}}'')])
   \<and> (\<exists>x. webSocketMessage test_runtime (handleRequest test_runtime refuse) (Text frame_prompt_missing) =
     [Send (''{"jsonrpc":"2.0","id":'' @ write_json x @
            '',"error":{"code":-32603,"message":"Internal error","data":"Unknown prompt: nope"}}'')])\<close>
proof -
  have parse: "JSON_parse test_runtime frame_nope =
      Inr (JObj [(''jsonrpc'', JStr ''2.0''), (''id'', JNum 1), (''method'', JStr ''tools/call''),
           (''params'', JObj [(''name'', JStr ''nope''), (''arguments'', JObj [])])])"
    by (simp add: test_parsed call_nope_def)
  have unknown: "''nope'' \<notin> set (listed ''tools'' ''name'' ListToolsRequestHandler)"
    "''cloudflare://nope'' \<notin> set (listed ''resources'' ''uri'' ListResourcesRequestHandler)"
    "''nope'' \<notin> set (listed ''prompts'' ''name'' ListPromptsRequestHandler)"
    by (simp_all add: listed_tools listed_resources listed_prompts)
  from unknown_capability_error_envelope [OF parse, of "JNum 1"
      "[(''name'', JStr ''nope''), (''arguments'', JObj [])]" "''nope''" "''Unknown tool: nope''"
      refuse "post_mcp frame_nope"] unknown(1)
  have tool: "(\<exists>x. webSocketMessage test_runtime (handleRequest test_runtime refuse) (Text frame_nope) =
      [Send (write_json (error_envelope x ''Unknown tool: nope''))])
    \<and> fetch test_runtime (handleRequest test_runtime refuse) (post_mcp frame_nope) =
       Settled
         \<lparr>status = 500,
          headers = [(''Content-Type'', ''application/json''), (''Access-Control-Allow-Origin'', ''*'')],
          body = Text_body (write_json (error_envelope JNull ''Unknown tool: nope''))\<rparr>"
    by (simp add: post_mcp_def)
  from unknown_capability_error_envelope [OF test_parsed(7), of "JNum 2"
      "[(''uri'', JStr ''cloudflare://nope'')]" "''cloudflare://nope''"
      "''Unknown resource: cloudflare://nope''" refuse "post_mcp frame_read_missing"] unknown(2)
  have resource: "\<exists>x. webSocketMessage test_runtime (handleRequest test_runtime refuse) (Text frame_read_missing) =
      [Send (write_json (error_envelope x ''Unknown resource: cloudflare://nope''))]"
    by simp
  from unknown_capability_error_envelope [OF test_parsed(8), of "JStr ''p''"
      "[(''name'', JStr ''nope'')]" "''nope''" "''Unknown prompt: nope''" refuse
      "post_mcp frame_prompt_missing"] unknown(3)
  have prompt: "\<exists>x. webSocketMessage test_runtime (handleRequest test_runtime refuse) (Text frame_prompt_missing) =
      [Send (write_json (error_envelope x ''Unknown prompt: nope''))]"
    by simp
  from tool resource prompt show ?thesis
    by (simp add: write_error_envelope)
qed

text \<open>
  C1 as first stated puts the offending name in the message of the error. For
  tools/call with the name \<^verbatim>\<open>"nope"\<close> the message of the envelope is
  \<^verbatim>\<open>"Internal error"\<close>, in which \<^verbatim>\<open>"Unknown tool: nope"\<close> does not occur; the name is
  in the data.
\<close>

theorem unknown_tool_message_counterexample:
  \<open>fetch test_runtime (handleRequest test_runtime refuse) (post_mcp frame_nope) =
     Settled
       \<lparr>status = 500,
        headers = [(''Content-Type'', ''application/json''), (''Access-Control-Allow-Origin'', ''*'')],
        body = Text_body (JSON_stringify test_runtime (error_envelope JNull ''Unknown tool: nope'') 0)\<rparr>
   \<and> JSON_stringify test_runtime (error_envelope JNull ''Unknown tool: nope'') 0 =
      ''{"jsonrpc":"2.0","id":null,"error":{"code":-32603,"message":"Internal error","data":"Unknown tool: nope"}}''
   \<and> getprop (error_envelope JNull ''Unknown tool: nope'') ''error'' =
       Some (JObj [(''code'', JNum (- 32603)),
                   (''message'', JStr ''Internal error''),
                   (''data'', JStr ''Unknown tool: nope'')])
   \<and> \<not> sublist ''Unknown tool: nope'' ''Internal error''\<close>
proof -
  have "fetch test_runtime (handleRequest test_runtime refuse) (post_mcp frame_nope) =
          Settled (fetch_catch test_runtime (Error ''Unknown tool: nope''))"
    by (rule fetch_fault [where j = "call_nope (JNum 1)"])
      (simp_all add: post_mcp_def test_parsed call_nope_thrown)
  then have "fetch test_runtime (handleRequest test_runtime refuse) (post_mcp frame_nope) =
     Settled
       \<lparr>status = 500,
        headers = [(''Content-Type'', ''application/json''), (''Access-Control-Allow-Origin'', ''*'')],
        body = Text_body (JSON_stringify test_runtime (error_envelope JNull ''Unknown tool: nope'') 0)\<rparr>"
    by (simp add: fetch_catch_def message_of_def)
  moreover have "\<not> sublist ''Unknown tool: nope'' ''Internal error''"
    by (simp add: sublist_Cons_right)
  ultimately show ?thesis
    by (simp add: write_error_envelope) (simp add: error_envelope_def)
qed

section \<open>Notifications\<close>

text \<open>
  C2. An inbound message that is a notification (an envelope without id) gets no
  response: the dispatcher returns nothing for it, and for every dispatcher that returns
  nothing the socket handler makes no call on the connection and the HTTP branch writes
  no data frame to the stream, which it only closes.
\<close>

theorem notification_gets_no_response:
  assumes "JSON_parse rt s = Inr (JObj kvs)" and "map_of kvs ''id'' = None"
  shows "handleRequest rt other (JObj kvs) = Inr None
       \<and> (\<forall>hr. hr (JObj kvs) = Inr None \<longrightarrow>
            webSocketMessage rt hr (Text s) = []
            \<and> (http_method req = ''POST'' \<and> pathname req = ''/mcp'' \<and> body_text req = s \<longrightarrow>
                 fetch rt hr req =
                   Settled
                     \<lparr>status = 200,
                      headers = [(''Content-Type'', ''text/event-stream''),
                                 (''Cache-Control'', ''no-cache''),
                                 (''Connection'', ''keep-alive''),
                                 (''Access-Control-Allow-Origin'', ''*''),
                                 (''Access-Control-Allow-Headers'', ''Content-Type, Authorization'')],
                      body = Readable [CloseWriter]\<rparr>))"
proof -
  have none: "handleRequest rt other (JObj kvs) = Inr None"
    using assms by (simp add: handleRequest_def notification_shaped_def)
  have socket: "webSocketMessage rt hr (Text s) = []" if "hr (JObj kvs) = Inr None" for hr
    using webSocketMessage_answer [of rt s "JObj kvs" hr None] assms(1) that by simp
  have http: "fetch rt hr req =
                   Settled
                     \<lparr>status = 200,
                      headers = [(''Content-Type'', ''text/event-stream''),
                                 (''Cache-Control'', ''no-cache''),
                                 (''Connection'', ''keep-alive''),
                                 (''Access-Control-Allow-Origin'', ''*''),
                                 (''Access-Control-Allow-Headers'', ''Content-Type, Authorization'')],
                      body = Readable [CloseWriter]\<rparr>"
    if "hr (JObj kvs) = Inr None" "http_method req = ''POST''" "pathname req = ''/mcp''"
      "body_text req = s" for hr
    using fetch_answer [of req rt "JObj kvs" hr None] that assms(1)
      stream_response_quiet [of None rt]
    by simp
  show ?thesis
    using none socket http by blast
qed

theorem notification_gets_no_response_witness:
  "webSocketMessage test_runtime (handleRequest test_runtime refuse) (Text frame_notification) = []
   \<and> fetch test_runtime (handleRequest test_runtime refuse) (post_mcp frame_notification) =
       Settled
         \<lparr>status = 200,
          headers = [(''Content-Type'', ''text/event-stream''),
                     (''Cache-Control'', ''no-cache''),
                     (''Connection'', ''keep-alive''),
                     (''Access-Control-Allow-Origin'', ''*''),
                     (''Access-Control-Allow-Headers'', ''Content-Type, Authorization'')],
          body = Readable [CloseWriter]\<rparr>"
proof -
  have absent: "map_of [(''jsonrpc'', JStr ''2.0''), (''method'', JStr ''notifications/initialized'')] ''id'' = None"
    by simp
  from notification_gets_no_response [OF test_parsed(4) absent, of refuse "post_mcp frame_notification"]
  show ?thesis
    by (simp add: post_mcp_def)
qed

section \<open>The tools\<close>

text \<open>
  C3. With \<open>u\<close> the draw of \<^verbatim>\<open>Math.random()\<close>, a double at least 0 and below 1, a call
  of random_number with the numbers min and max answers with the text of the number
  \<open>floor (u * (max - min + 1)) + min\<close>, computed as the source does, in doubles; for
  min = max = 5 that number is 5, and for min = 1 and max = 10 it is a whole number from
  1 to 10.
\<close>

theorem random_number_formula:
  assumes "0 \<le> Math_random rt" and "Math_random rt < 1"
    and "round64 (Math_random rt) = Math_random rt"
    and "map_of ps ''name'' = Some (JStr ''random_number'')"
    and "map_of ps ''arguments'' = Some (JObj as)"
  shows "(map_of as ''min'' = Some (JNum mn) \<and> map_of as ''max'' = Some (JNum mx) \<longrightarrow>
          CallToolRequestHandler rt (Some (JObj ps)) =
            Inr (JObj [(''content'', JArr [JObj [(''type'', JStr ''text''),
              (''text'', JStr
                (''Random number between '' @ Number_toString rt mn @ '' and '' @
                 Number_toString rt mx @ '': '' @
                 number_text rt
                   (dadd (dfloor (dmul (Num (Math_random rt))
                                       (dadd (dsub (Num mx) (Num mn)) (Num 1))))
                         (Num mn))))]])]))
       \<and> (map_of as ''min'' = Some (JNum 5) \<and> map_of as ''max'' = Some (JNum 5) \<longrightarrow>
          CallToolRequestHandler rt (Some (JObj ps)) =
            Inr (JObj [(''content'', JArr [JObj [(''type'', JStr ''text''),
              (''text'', JStr
                (''Random number between '' @ Number_toString rt 5 @ '' and '' @
                 Number_toString rt 5 @ '': '' @ Number_toString rt 5))]])]))
       \<and> (map_of as ''min'' = Some (JNum 1) \<and> map_of as ''max'' = Some (JNum 10) \<longrightarrow>
          (\<exists>k::int. 1 \<le> k \<and> k \<le> 10 \<and>
             CallToolRequestHandler rt (Some (JObj ps)) =
               Inr (JObj [(''content'', JArr [JObj [(''type'', JStr ''text''),
                 (''text'', JStr
                   (''Random number between '' @ Number_toString rt 1 @ '' and '' @
                    Number_toString rt 10 @ '': '' @ Number_toString rt (of_int k)))]])])))"
proof -
  let ?u = "Math_random rt"
  have call: "CallToolRequestHandler rt (Some (JObj ps)) =
            Inr (JObj [(''content'', JArr [JObj [(''type'', JStr ''text''),
              (''text'', JStr
                (''Random number between '' @ Number_toString rt a @ '' and '' @
                 Number_toString rt b @ '': '' @ number_text rt (randomNum rt a b)))]])])"
    if "map_of as ''min'' = Some (JNum a)" and "map_of as ''max'' = Some (JNum b)" for a b
    using assms(4,5) that by (simp add: handler_defs)
  have unit: "to_double ?u = Num ?u"
    using assms(1,2,3) by (intro to_double_exact) simp_all
  have "\<lfloor>?u\<rfloor> = 0"
    using assms(1,2) by (simp add: floor_eq_iff)
  then have five: "randomNum rt 5 5 = Num 5"
    by (simp add: randomNum_def dsub_def dmul_def to_double_small unit)
  have top: "?u * 10 \<le> 10 - 10 / 2 ^ 53"
    using double_below_1 [OF assms(3,1,2)] by (simp add: field_simps)
  have low: "0 \<le> ?u * 10"
    using assms(1) by simp
  define y where "y = round64 (?u * 10)"
  have y: "0 \<le> y" "y < 10"
    using round64_nonneg [OF low] round64_below_10 [OF low top] by (simp_all add: y_def)
  then have product: "to_double (?u * 10) = Num y"
    by (simp add: to_double_def y_def)
  define k where "k = \<lfloor>y\<rfloor>"
  have "0 \<le> k" and "k < 10"
    using y by (simp_all add: k_def floor_less_iff)
  then have "k = 0 \<or> k = 1 \<or> k = 2 \<or> k = 3 \<or> k = 4 \<or> k = 5 \<or> k = 6 \<or> k = 7 \<or> k = 8 \<or> k = 9"
    by arith
  then have "to_double (of_int k + 1) = Num (of_int (k + 1))"
    by (auto simp add: to_double_small)
  then have ten: "randomNum rt 1 10 = Num (of_int (k + 1))"
    by (simp add: randomNum_def dsub_def dmul_def to_double_small product flip: k_def)
  have range: "1 \<le> k + 1" "k + 1 \<le> 10"
    using \<open>0 \<le> k\<close> \<open>k < 10\<close> by simp_all
  show ?thesis
  proof (intro conjI impI)
    assume "map_of as ''min'' = Some (JNum mn) \<and> map_of as ''max'' = Some (JNum mx)"
    then show "CallToolRequestHandler rt (Some (JObj ps)) =
            Inr (JObj [(''content'', JArr [JObj [(''type'', JStr ''text''),
              (''text'', JStr
                (''Random number between '' @ Number_toString rt mn @ '' and '' @
                 Number_toString rt mx @ '': '' @
                 number_text rt
                   (dadd (dfloor (dmul (Num (Math_random rt))
                                       (dadd (dsub (Num mx) (Num mn)) (Num 1))))
                         (Num mn))))]])])"
      using call [of mn mx] by (simp add: randomNum_def)
  next
    assume "map_of as ''min'' = Some (JNum 5) \<and> map_of as ''max'' = Some (JNum 5)"
    then show "CallToolRequestHandler rt (Some (JObj ps)) =
            Inr (JObj [(''content'', JArr [JObj [(''type'', JStr ''text''),
              (''text'', JStr
                (''Random number between '' @ Number_toString rt 5 @ '' and '' @
                 Number_toString rt 5 @ '': '' @ Number_toString rt 5))]])])"
      using call [of 5 5] five by simp
  next
    assume "map_of as ''min'' = Some (JNum 1) \<and> map_of as ''max'' = Some (JNum 10)"
    then have "CallToolRequestHandler rt (Some (JObj ps)) =
               Inr (JObj [(''content'', JArr [JObj [(''type'', JStr ''text''),
                 (''text'', JStr
                   (''Random number between '' @ Number_toString rt 1 @ '' and '' @
                    Number_toString rt 10 @ '': '' @ Number_toString rt (of_int (k + 1))))]])])"
      using call [of 1 10] ten by simp
    with range show "\<exists>k::int. 1 \<le> k \<and> k \<le> 10 \<and>
             CallToolRequestHandler rt (Some (JObj ps)) =
               Inr (JObj [(''content'', JArr [JObj [(''type'', JStr ''text''),
                 (''text'', JStr
                   (''Random number between '' @ Number_toString rt 1 @ '' and '' @
                    Number_toString rt 10 @ '': '' @ Number_toString rt (of_int k)))]])])"
      by blast
  qed
qed

text \<open>
  The draw 1/2 gives 6 between 1 and 10. The draw of the double nearest to 0.7 gives 8:
  the product with 10 lies halfway between two doubles and is rounded to 7.
\<close>

theorem random_number_formula_witness:
  "0 \<le> Math_random test_runtime \<and> Math_random test_runtime < 1
   \<and> round64 (Math_random test_runtime) = Math_random test_runtime
   \<and> CallToolRequestHandler test_runtime
        (Some (JObj [(''name'', JStr ''random_number''),
                     (''arguments'', JObj [(''min'', JNum 1), (''max'', JNum 10)])])) =
      Inr (JObj [(''content'', JArr [JObj [(''type'', JStr ''text''),
                   (''text'', JStr ''Random number between 1 and 10: 6'')]])])
   \<and> CallToolRequestHandler (test_runtime\<lparr>Math_random := 3152519739159347 / 2 ^ 52\<rparr>)
        (Some (JObj [(''name'', JStr ''random_number''),
                     (''arguments'', JObj [(''min'', JNum 1), (''max'', JNum 10)])])) =
      Inr (JObj [(''content'', JArr [JObj [(''type'', JStr ''text''),
                   (''text'', JStr ''Random number between 1 and 10: 8'')]])])"
proof -
  let ?ps = "[(''name'', JStr ''random_number''),
              (''arguments'', JObj [(''min'', JNum 1), (''max'', JNum 10)])]"
  let ?as = "[(''min'', JNum 1), (''max'', JNum (10::real))]"
  let ?rt = "test_runtime\<lparr>Math_random := 3152519739159347 / 2 ^ 52\<rparr>"
  have shown: "show_int 1 = ''1''" "show_int 10 = ''10''" "show_int 6 = ''6''" "show_int 8 = ''8''"
    by (simp_all add: show_int_def show_nat.simps)
  have half: "0 \<le> Math_random test_runtime" "Math_random test_runtime < 1"
    "round64 (Math_random test_runtime) = Math_random test_runtime"
    by (simp_all add: test_runtime_def round64_def ulp_def expo_def round_even_def bitlen_small)
  have seven: "0 \<le> Math_random ?rt" "Math_random ?rt < 1" "round64 (Math_random ?rt) = Math_random ?rt"
    by (simp_all add: round64_def ulp_def expo_def round_even_def bitlen_small)
  have five: "to_double (10 / 2) = Num 5"
    using to_double_small(6) by simp
  have "to_double (3152519739159347 / 2 ^ 52 * 10) = Num 7"
    by (simp add: to_double_def round64_def ulp_def expo_def round_even_def bitlen_small)
  then have tie: "to_double (15762598695796735 / 2251799813685248) = Num 7"
    by simp
  have names: "map_of ?ps ''name'' = Some (JStr ''random_number'')"
    "map_of ?ps ''arguments'' = Some (JObj ?as)"
    by simp_all
  from random_number_formula [OF half names, of 1 10]
  have first: "CallToolRequestHandler test_runtime (Some (JObj ?ps)) =
      Inr (JObj [(''content'', JArr [JObj [(''type'', JStr ''text''),
                   (''text'', JStr ''Random number between 1 and 10: 6'')]])])"
    by (simp add: test_runtime_def dsub_def dmul_def to_double_small five shown)
  from random_number_formula [OF seven names, of 1 10]
  have second: "CallToolRequestHandler ?rt (Some (JObj ?ps)) =
      Inr (JObj [(''content'', JArr [JObj [(''type'', JStr ''text''),
                   (''text'', JStr ''Random number between 1 and 10: 8'')]])])"
    by (simp add: test_runtime_def dsub_def dmul_def to_double_small tie shown)
  from half first second show ?thesis
    by simp
qed

text \<open>
  C7. For every string \<open>s\<close>, a tools/call request that names the tool echo and whose
  arguments carry the text \<open>s\<close> returns the result
  \<^verbatim>\<open>{content: [{type: "text", text: t}]}\<close> in which \<open>t\<close> is \<^verbatim>\<open>"Echo: "\<close> followed by
  \<open>s\<close>. Other properties of the params and of the arguments change nothing.
\<close>

theorem echo_tool_text:
  assumes "map_of ps ''name'' = Some (JStr ''echo'')"
    and "map_of ps ''arguments'' = Some (JObj as)"
    and "map_of as ''text'' = Some (JStr s)"
  shows "CallToolRequestHandler rt (Some (JObj ps)) =
           Inr (JObj [(''content'', JArr [JObj [(''type'', JStr ''text''),
                                                (''text'', JStr (''Echo: '' @ s))]])])"
  using assms by (simp add: handler_defs)

text \<open>
  The example of the specification: echo of \<^verbatim>\<open>"Hello, MCP!"\<close>.
\<close>

theorem echo_tool_text_witness:
  "CallToolRequestHandler test_runtime
     (Some (JObj [(''name'', JStr ''echo''), (''arguments'', JObj [(''text'', JStr ''Hello, MCP!'')])])) =
   Inr (JObj [(''content'', JArr [JObj [(''type'', JStr ''text''),
                                        (''text'', JStr ''Echo: Hello, MCP!'')]])])"
  using echo_tool_text [of "[(''name'', JStr ''echo''), (''arguments'', JObj [(''text'', JStr ''Hello, MCP!'')])]"
      "[(''text'', JStr ''Hello, MCP!'')]" "''Hello, MCP!''" test_runtime]
  by simp

section \<open>The HTTP transport\<close>

text \<open>
  C5 fails on the code. The body of the POST is a tools/call request for echo; the
  dispatcher answers it with a result envelope, fetch awaits the write of the one data
  frame while it still holds the readable end of the stream, the write never settles,
  and fetch never returns: there is no response, no frame and no close.
\<close>

theorem post_with_answer_never_returns:
  "handleRequest test_runtime refuse
     (JObj [(''jsonrpc'', JStr ''2.0''), (''id'', JNum 3), (''method'', JStr ''tools/call''),
            (''params'', JObj [(''name'', JStr ''echo''),
                               (''arguments'', JObj [(''text'', JStr ''Hello, MCP!'')])])]) =
     Inr (Some (JObj [(''jsonrpc'', JStr ''2.0''), (''id'', JNum 3),
                      (''result'', JObj [(''content'', JArr [JObj [(''type'', JStr ''text''),
                                           (''text'', JStr ''Echo: Hello, MCP!'')]])])]))
   \<and> fetch test_runtime (handleRequest test_runtime refuse) (post_mcp frame_echo) = Never"
proof -
  let ?echo = "JObj [(''jsonrpc'', JStr ''2.0''), (''id'', JNum 3), (''method'', JStr ''tools/call''),
               (''params'', JObj [(''name'', JStr ''echo''),
                                  (''arguments'', JObj [(''text'', JStr ''Hello, MCP!'')])])]"
  let ?answer = "JObj [(''jsonrpc'', JStr ''2.0''), (''id'', JNum 3),
                      (''result'', JObj [(''content'', JArr [JObj [(''type'', JStr ''text''),
                                           (''text'', JStr ''Echo: Hello, MCP!'')]])])]"
  have answered: "handleRequest test_runtime refuse ?echo = Inr (Some ?answer)"
    by (simp add: handleRequest_def notification_shaped_def respond_def result_envelope_def
        handler_defs)
  have "fetch test_runtime (handleRequest test_runtime refuse) (post_mcp frame_echo) =
          stream_response test_runtime (Some ?answer)"
    using fetch_answer [of "post_mcp frame_echo" test_runtime ?echo
        "handleRequest test_runtime refuse" "Some ?answer"] test_parsed(5) answered
    by (simp add: post_mcp_def)
  then have "fetch test_runtime (handleRequest test_runtime refuse) (post_mcp frame_echo) = Never"
    by (simp add: stream_response_pending)
  with answered show ?thesis
    by simp
qed

section \<open>The socket transport\<close>

text \<open>
  C4 fails on the code. The frame is a tools/call request with id 0 for the unknown
  tool \<^verbatim>\<open>"nope"\<close>; its handling faults, the id is read from the parsed frame, and the
  envelope sent carries the id null: \<^verbatim>\<open>parsedMessage.id || null\<close> takes 0 for absent.
\<close>

theorem id_zero_answered_with_null:
  \<open>webSocketMessage test_runtime (handleRequest test_runtime refuse) (Text frame_nope_id0) =
     [Send ''{"jsonrpc":"2.0","id":null,"error":{"code":-32603,"message":"Internal error","data":"Unknown tool: nope"}}'']\<close>
  using webSocketMessage_fault [of test_runtime frame_nope_id0 "call_nope (JNum 0)"
      "handleRequest test_runtime refuse" "Error ''Unknown tool: nope''"]
  by (simp add: test_parsed call_nope_thrown)
    (simp add: call_nope_def or_null_def write_error_envelope message_of_def)

text \<open>
  C6. Accepting a connection adds it to the set of open connections and makes two
  calls on it, accept and the send of one frame, the notification
  \<^verbatim>\<open>notifications/initialized\<close> (an envelope without id). In every run that starts
  with the accept, these two calls come before every call made for a later event, so
  before any frame of the client is handled.
\<close>

theorem accept_sends_initialized_first:
  "fst (acceptWebSocket rt this ws) = this\<lparr>sessions := insert ws (sessions this)\<rparr>
   \<and> ws \<in> sessions (fst (acceptWebSocket rt this ws))
   \<and> snd (acceptWebSocket rt this ws) = [Accept, Send (JSON_stringify rt initMessage 0)]
   \<and> getprop initMessage ''method'' = Some (JStr ''notifications/initialized'')
   \<and> getprop initMessage ''id'' = None
   \<and> snd (run rt hr this (Accepted ws # evs)) =
         [(ws, Accept), (ws, Send (JSON_stringify rt initMessage 0))] @
         snd (run rt hr (fst (acceptWebSocket rt this ws)) evs)"
  by (simp add: acceptWebSocket_def initMessage_def split: prod.splits)

theorem accept_sends_initialized_first_witness:
  \<open>snd (run test_runtime (handleRequest test_runtime refuse) \<lparr>sessions = {}\<rparr>
          [Accepted (7::nat), Received 7 (Text frame_notification)]) =
     [(7, Accept), (7, Send ''{"jsonrpc":"2.0","method":"notifications/initialized","params":{}}'')]
   \<and> sessions (fst (acceptWebSocket test_runtime \<lparr>sessions = {}\<rparr> (7::nat))) = {7}\<close>
  using accept_sends_initialized_first [of test_runtime "\<lparr>sessions = {}\<rparr>" "7::nat"
      "handleRequest test_runtime refuse" "[Received 7 (Text frame_notification)]"]
  by (simp add: test_runtime_def initMessage_def acceptWebSocket_def webSocketMessage_def
      test_table_def frame_notification_def frame_nope_def frame_nope_id0_def
      handleRequest_def notification_shaped_def)

text \<open>
  C8. Closing and failing are idempotent on the set of open connections: handling a
  close or an error twice for one connection, in any combination, leaves the state that
  handling it once leaves; on a connection that is not in the set both handlers change
  nothing; and after either the connection is not in the set. The handlers have no
  failing branch: removal from a set never throws.
\<close>

theorem close_and_error_idempotent:
  "webSocketClose (webSocketClose this ws c r) ws c' r' = webSocketClose this ws c r
   \<and> webSocketError (webSocketError this ws) ws = webSocketError this ws
   \<and> webSocketError (webSocketClose this ws c r) ws = webSocketClose this ws c r
   \<and> webSocketClose (webSocketError this ws) ws c r = webSocketError this ws
   \<and> (ws \<notin> sessions this \<longrightarrow>
        webSocketClose this ws c r = this \<and> webSocketError this ws = this)
   \<and> ws \<notin> sessions (webSocketClose this ws c r)
   \<and> ws \<notin> sessions (webSocketError this ws)"
  by (simp add: webSocketClose_def webSocketError_def)

theorem close_and_error_idempotent_witness:
  "(2::nat) \<notin> sessions \<lparr>sessions = {1, 3}\<rparr>
   \<and> webSocketClose \<lparr>sessions = {1, 3::nat}\<rparr> 2 1000 ''bye'' = \<lparr>sessions = {1, 3}\<rparr>
   \<and> webSocketError \<lparr>sessions = {1, 3::nat}\<rparr> 2 = \<lparr>sessions = {1, 3}\<rparr>"
proof -
  have absent: "(2::nat) \<notin> sessions \<lparr>sessions = {1, 3}\<rparr>"
    by simp
  from close_and_error_idempotent [of "\<lparr>sessions = {1, 3::nat}\<rparr>" 2 1000 "''bye''" 1000 "''bye''"]
  have "(2::nat) \<notin> sessions \<lparr>sessions = {1, 3}\<rparr> \<longrightarrow>
          webSocketClose \<lparr>sessions = {1, 3::nat}\<rparr> 2 1000 ''bye'' = \<lparr>sessions = {1, 3}\<rparr>
          \<and> webSocketError \<lparr>sessions = {1, 3::nat}\<rparr> 2 = \<lparr>sessions = {1, 3}\<rparr>"
    by blast
  with absent show ?thesis
    by blast
qed

text \<open>
  C9. A binary frame is never answered with an error envelope: the handler throws
  before it parses, the catch branch parses the text \<^verbatim>\<open>[object ArrayBuffer]\<close> that the
  frame converts to, and on a runtime whose \<^verbatim>\<open>JSON.parse\<close> rejects that text (it is
  not JSON) the only call on the connection is close with code 1011 and the reason
  \<^verbatim>\<open>"Internal error"\<close>.
\<close>

theorem binary_frame_closes:
  assumes "JSON_parse rt ''[object ArrayBuffer]'' = Inl e"
  shows "webSocketMessage rt hr (ArrayBuffer bs) = [Close 1011 ''Internal error'']"
  using assms by (simp add: webSocketMessage_def webSocketMessage_catch_def)

theorem binary_frame_closes_witness:
  "JSON_parse test_runtime ''[object ArrayBuffer]'' = Inl SyntaxError
   \<and> webSocketMessage test_runtime refuse (ArrayBuffer [0, 255]) = [Close 1011 ''Internal error'']"
proof -
  have rejected: "JSON_parse test_runtime ''[object ArrayBuffer]'' = Inl SyntaxError"
    by (simp add: test_parse test_frames)
  from rejected binary_frame_closes [OF rejected, of refuse "[0, 255]"]
  show ?thesis by simp
qed

text \<open>
  C10, as amended. For a string frame that parses as JSON to a value other than null,
  the handler never closes the connection, and a fault of the dispatcher is answered
  with the error envelope, sent on the connection: its id is the id of the parsed value
  when that is truthy and null otherwise, its data the message of the fault.
\<close>

theorem parsed_frame_fault_is_answered:
  assumes "JSON_parse rt s = Inr j" and "j \<noteq> JNull"
  shows "(\<forall>c r. Close c r \<notin> set (webSocketMessage rt hr (Text s)))
       \<and> (\<forall>e. hr j = Inl e \<longrightarrow>
            webSocketMessage rt hr (Text s) =
              [Send (JSON_stringify rt (error_envelope (or_null (getprop j ''id'')) (message_of rt e)) 0)])"
proof (cases "hr j")
  case (Inl e)
  from webSocketMessage_fault [of rt s j hr e] assms Inl show ?thesis
    by simp
next
  case (Inr r)
  from webSocketMessage_answer [of rt s j hr r] assms Inr show ?thesis
    by (simp split: option.splits)
qed

theorem parsed_frame_fault_is_answered_witness:
  \<open>webSocketMessage test_runtime (handleRequest test_runtime refuse) (Text frame_notification) = []
   \<and> webSocketMessage test_runtime refuse (Text frame_notification) =
       [Send ''{"jsonrpc":"2.0","id":null,"error":{"code":-32603,"message":"Internal error","data":"Method not found"}}'']\<close>
proof -
  let ?j = "JObj [(''jsonrpc'', JStr ''2.0''), (''method'', JStr ''notifications/initialized'')]"
  have not_null: "?j \<noteq> JNull"
    by simp
  have thrown: "refuse ?j = Inl (Error ''Method not found'')"
    by (simp add: refuse_def)
  have quiet: "handleRequest test_runtime refuse ?j = Inr None"
    by (simp add: handleRequest_def notification_shaped_def)
  from parsed_frame_fault_is_answered [OF test_parsed(4) not_null, of refuse] thrown
  have "webSocketMessage test_runtime refuse (Text frame_notification) =
       [Send (JSON_stringify test_runtime (error_envelope (or_null (getprop ?j ''id''))
          (message_of test_runtime (Error ''Method not found''))) 0)]"
    by blast
  moreover have "webSocketMessage test_runtime (handleRequest test_runtime refuse) (Text frame_notification) = []"
    using webSocketMessage_answer [of test_runtime frame_notification ?j "handleRequest test_runtime refuse" None]
      test_parsed(4) quiet by simp
  ultimately show ?thesis
    by (simp add: or_null_def message_of_def write_error_envelope)
qed

text \<open>
  C10 as first stated covers every string that parses. The frame \<^verbatim>\<open>null\<close> parses,
  to null; when its handling faults, the catch branch parses it again, fails to read
  the id of null, and closes the connection.
\<close>

theorem null_frame_closes_counterexample:
  "JSON_parse test_runtime ''null'' = Inr JNull
   \<and> handleRequest test_runtime refuse JNull = Inl (Error ''Method not found'')
   \<and> webSocketMessage test_runtime (handleRequest test_runtime refuse) (Text ''null'') =
       [Close 1011 ''Internal error'']"
  by (simp add: test_parsed handleRequest_def refuse_def webSocketMessage_def webSocketMessage_catch_def)

end
